theory Spec2Isabelle
  imports
    Main
    "HOL-Library.AList"
    "HOL-Library.Sublist"
    "HOL-Library.Char_ord"
    "HOL-Library.List_Lexorder"
begin

section \<open>Go library functions used by the wiki\<close>

text \<open>
  A Go \<open>string\<close> is a sequence of bytes, here a \<open>char list\<close>.  The functions of this
  section are the ones of packages \<open>strings\<close> and \<open>path/filepath\<close> (Unix build, separator
  \<open>/\<close>, no volume names) that the wiki calls; each follows the library's own algorithm
  and carries the package name as a prefix.
\<close>

subsection \<open>Package strings\<close>

definition strings_HasPrefix :: "string \<Rightarrow> string \<Rightarrow> bool" where
  "strings_HasPrefix s pre \<longleftrightarrow> length pre \<le> length s \<and> take (length pre) s = pre"

text \<open>
  \<open>strings.Split(s, sep)\<close> for a one-byte separator (the only call passes \<open>"/"\<close>): the
  pieces between the separators, \<open>n + 1\<close> of them for \<open>n\<close> separators, so never an
  empty slice.  \<open>cur\<close> is the piece being read.
\<close>

fun split_from :: "string \<Rightarrow> char \<Rightarrow> string \<Rightarrow> string list" where
  "split_from cur sep [] = [cur]"
| "split_from cur sep (c # cs) =
     (if c = sep then cur # split_from [] sep cs else split_from (cur @ [c]) sep cs)"

definition strings_Split :: "string \<Rightarrow> char \<Rightarrow> string list" where
  "strings_Split s sep = split_from [] sep s"

fun strings_Join :: "string list \<Rightarrow> string \<Rightarrow> string" where
  "strings_Join [] sep = []"
| "strings_Join [e] sep = e"
| "strings_Join (e # es) sep = e @ sep @ strings_Join es sep"

subsection \<open>Package path/filepath\<close>

definition Separator :: char where
  "Separator = CHR ''/''"

definition IsPathSeparator :: "char \<Rightarrow> bool" where
  "IsPathSeparator c \<longleftrightarrow> c = Separator"

text \<open>\<open>r + k == n || os.IsPathSeparator(path[r + k])\<close>, on the rest of the path from \<open>r + k\<close>.\<close>

fun element_ends :: "string \<Rightarrow> bool" where
  "element_ends [] = True"
| "element_ends (c # cs) = IsPathSeparator c"

text \<open>
  The backtracking of a \<open>..\<close> element in \<open>Clean\<close>, after its \<open>out.w--\<close>:
  \<open>for out.w > dotdot && !os.IsPathSeparator(out.index(out.w)) { out.w-- }\<close>.
\<close>

function backtrack :: "string \<Rightarrow> nat \<Rightarrow> nat \<Rightarrow> nat" where
  "backtrack out dotdot w =
     (if dotdot < w \<and> \<not> IsPathSeparator (out ! w) then backtrack out dotdot (w - 1) else w)"
  by pat_completeness auto
termination
  by (relation "measure (\<lambda>(out, dotdot, w). w)") auto

text \<open>
  The loop \<open>for r < n\<close> of \<open>Clean\<close>.  \<open>path\<close> is the input from index \<open>r\<close> on, \<open>out\<close> the
  bytes written so far (\<open>out.w\<close> is its length) and \<open>dotdot\<close> the index where a \<open>..\<close>
  must stop.  The four cases of the \<open>switch\<close> are, in order: an empty element, a \<open>.\<close>
  element, a \<open>..\<close> element (backtrack, or append it when the path is not rooted, or
  drop it at the root), and a real element, copied up to the next separator.
\<close>

function clean_loop :: "bool \<Rightarrow> string \<Rightarrow> string \<Rightarrow> nat \<Rightarrow> string" where
  "clean_loop rooted [] out dotdot = out"
| "clean_loop rooted (c # t) out dotdot =
     (if IsPathSeparator c then clean_loop rooted t out dotdot
      else if c = CHR ''.'' \<and> element_ends t then clean_loop rooted t out dotdot
      else if c = CHR ''.'' \<and> hd t = CHR ''.'' \<and> element_ends (tl t) then
        (if dotdot < length out then
           clean_loop rooted (tl t) (take (backtrack out dotdot (length out - 1)) out) dotdot
         else if \<not> rooted then
           clean_loop rooted (tl t)
             ((if 0 < length out then out @ [Separator] else out) @ ''..'')
             (length ((if 0 < length out then out @ [Separator] else out) @ ''..''))
         else clean_loop rooted (tl t) out dotdot)
      else
        clean_loop rooted (dropWhile (\<lambda>x. \<not> IsPathSeparator x) t)
          ((if rooted \<and> length out \<noteq> 1 \<or> \<not> rooted \<and> length out \<noteq> 0
            then out @ [Separator] else out)
           @ c # takeWhile (\<lambda>x. \<not> IsPathSeparator x) t)
          dotdot)"
  by pat_completeness auto
termination
  by (relation "measure (\<lambda>(rooted, path, out, dotdot). length path)")
     (simp_all (no_asm) add: less_Suc_eq_le length_dropWhile_le del: backtrack.simps)

declare backtrack.simps [simp del] clean_loop.simps [simp del]

text \<open>
  \<open>filepath.Clean\<close>: the empty path is \<open>"."\<close>; a rooted path starts the output with the
  separator (\<open>r, dotdot = 1, 1\<close>); an output still empty after the loop is \<open>"."\<close>.
\<close>

definition filepath_Clean :: "string \<Rightarrow> string" where
  "filepath_Clean path =
     (if path = [] then ''.''
      else if IsPathSeparator (hd path) then
        (let out = clean_loop True (tl path) [Separator] 1 in
         if length out = 0 then ''.'' else out)
      else
        (let out = clean_loop False path [] 0 in
         if length out = 0 then ''.'' else out))"

text \<open>
  \<open>filepath.Join\<close>: the elements from the first non-empty one on, joined by the separator
  and cleaned; the empty string when every element is empty.
\<close>

fun filepath_Join :: "string list \<Rightarrow> string" where
  "filepath_Join [] = []"
| "filepath_Join (e # es) =
     (if e \<noteq> [] then filepath_Clean (strings_Join (e # es) [Separator]) else filepath_Join es)"

declare filepath_Join.simps [simp del]

text \<open>\<open>filepath.Dir\<close>: the path up to and with its last separator, cleaned.\<close>

definition filepath_Dir :: "string \<Rightarrow> string" where
  "filepath_Dir path = filepath_Clean (rev (dropWhile (\<lambda>x. \<not> IsPathSeparator x) (rev path)))"

definition filepath_IsAbs :: "string \<Rightarrow> bool" where
  "filepath_IsAbs path \<longleftrightarrow> strings_HasPrefix path [Separator]"

section \<open>The operating system\<close>

text \<open>
  The wiki reads and writes files through packages \<open>os\<close> and \<open>io/ioutil\<close> and runs
  \<open>git\<close> through \<open>os/exec\<close>.  The file system is a tree: a regular file holds its bytes,
  a directory lists its entries by name (the first binding of a name is the entry).  There
  is one user and there are no permission bits, no symbolic links and no I/O failures, so
  a call fails only for the shape of the tree; a call that fails leaves the tree as it was.
\<close>

datatype errno = ENOENT | ENOTDIR | EISDIR | ENOTEMPTY | EBUSY

text \<open>
  Go's \<open>error\<close> values: \<open>errors.New(text)\<close>, \<open>*os.PathError{Op, Path, Err}\<close> and the error
  of a subprocess that could not be run or did not exit with status 0.  \<open>nil\<close> is \<open>None\<close>.
\<close>

datatype error = errorString string | PathError string string errno | ExitError


datatype node = File string | Dir "(string \<times> node) list"

fun is_dir :: "node \<Rightarrow> bool" where
  "is_dir (Dir es) = True"
| "is_dir (File d) = False"

record world =
  fs_root :: node
  fs_cwd :: "string list"

text \<open>
  Path resolution.  A path is read name by name from the root directory when it is
  absolute and from the working directory otherwise; empty names and \<open>.\<close> stay in place,
  \<open>..\<close> goes up one directory (and stays at the root).  The wiki passes cleaned paths
  only, where \<open>..\<close> can stand only in front of a relative path and which are never the
  empty path.
\<close>

fun walk :: "string list \<Rightarrow> string \<Rightarrow> string list" where
  "walk stack name =
     (if name = [] \<or> name = ''.'' then stack
      else if name = ''..'' then butlast stack
      else stack @ [name])"

definition abs_names :: "string list \<Rightarrow> string \<Rightarrow> string list" where
  "abs_names cwd path =
     foldl walk (if filepath_IsAbs path then [] else cwd) (strings_Split path Separator)"

fun lookup :: "node \<Rightarrow> string list \<Rightarrow> errno + node" where
  "lookup n [] = Inr n"
| "lookup (File d) (c # cs) = Inl ENOTDIR"
| "lookup (Dir es) (c # cs) =
     (case map_of es c of None \<Rightarrow> Inl ENOENT | Some n \<Rightarrow> lookup n cs)"

definition resolve :: "world \<Rightarrow> string \<Rightarrow> errno + node" where
  "resolve s path = lookup (fs_root s) (abs_names (fs_cwd s) path)"

text \<open>
  \<open>open(O_WRONLY|O_CREATE|O_TRUNC)\<close> and write: an existing regular file gets the new
  bytes, a missing name in an existing directory becomes a new file, a directory cannot
  be written, and every name before the last must be a directory.
\<close>

fun write_at :: "string list \<Rightarrow> string \<Rightarrow> node \<Rightarrow> errno + node" where
  "write_at [] data (File d) = Inr (File data)"
| "write_at [] data (Dir es) = Inl EISDIR"
| "write_at (c # cs) data (File d) = Inl ENOTDIR"
| "write_at (c # cs) data (Dir es) =
     (case map_of es c of
        None \<Rightarrow> if cs = [] then Inr (Dir (es @ [(c, File data)])) else Inl ENOENT
      | Some n \<Rightarrow>
          (case write_at cs data n of
             Inl e \<Rightarrow> Inl e
           | Inr n' \<Rightarrow> Inr (Dir (AList.update c n' es))))"


text \<open>
  \<open>mkdir\<close> for every missing directory of the path, from the top; a regular file on the
  way is the error.
\<close>

fun mkdir_all :: "string list \<Rightarrow> node \<Rightarrow> errno + node" where
  "mkdir_all cs (File d) = Inl ENOTDIR"
| "mkdir_all [] (Dir es) = Inr (Dir es)"
| "mkdir_all (c # cs) (Dir es) =
     (case map_of es c of
        None \<Rightarrow>
          (case mkdir_all cs (Dir []) of
             Inl e \<Rightarrow> Inl e
           | Inr n' \<Rightarrow> Inr (Dir (es @ [(c, n')])))
      | Some n \<Rightarrow>
          (case mkdir_all cs n of
             Inl e \<Rightarrow> Inl e
           | Inr n' \<Rightarrow> Inr (Dir (AList.update c n' es))))"

text \<open>
  The calls of the wiki.  Each returns Go's \<open>error\<close> (\<open>None\<close> for \<open>nil\<close>) and the world it
  leaves, or the value read.  The permission argument of \<open>WriteFile\<close> and \<open>MkdirAll\<close> has
  no effect here and is left out.  An error of \<open>MkdirAll\<close> names the path it was called
  with (Go names the offending directory); no theorem below depends on that path.
\<close>

definition ioutil_ReadFile :: "string \<Rightarrow> world \<Rightarrow> error + string" where
  "ioutil_ReadFile name s =
     (case resolve s name of
        Inl e \<Rightarrow> Inl (PathError ''open'' name e)
      | Inr (File d) \<Rightarrow> Inr d
      | Inr (Dir es) \<Rightarrow> Inl (PathError ''read'' name EISDIR))"

definition ioutil_WriteFile :: "string \<Rightarrow> string \<Rightarrow> world \<Rightarrow> error option \<times> world" where
  "ioutil_WriteFile name data s =
     (case write_at (abs_names (fs_cwd s) name) data (fs_root s) of
        Inl e \<Rightarrow> (Some (PathError ''open'' name e), s)
      | Inr r \<Rightarrow> (None, s\<lparr>fs_root := r\<rparr>))"


definition os_MkdirAll :: "string \<Rightarrow> world \<Rightarrow> error option \<times> world" where
  "os_MkdirAll path s =
     (case mkdir_all (abs_names (fs_cwd s) path) (fs_root s) of
        Inl e \<Rightarrow> (Some (PathError ''mkdir'' path e), s)
      | Inr r \<Rightarrow> (None, s\<lparr>fs_root := r\<rparr>))"

text \<open>
  \<open>os.FileInfo\<close>, with the two methods the wiki calls.  \<open>ioutil.ReadDir\<close> returns the
  entries of a directory sorted by name (bytewise, as Go compares strings).
\<close>

record FileInfo =
  Name :: string
  IsDir :: bool

definition ioutil_ReadDir :: "string \<Rightarrow> world \<Rightarrow> error + FileInfo list" where
  "ioutil_ReadDir dirname s =
     (case resolve s dirname of
        Inl e \<Rightarrow> Inl (PathError ''open'' dirname e)
      | Inr (File d) \<Rightarrow> Inl (PathError ''readdirent'' dirname ENOTDIR)
      | Inr (Dir es) \<Rightarrow>
          Inr (sort_key FileInfo.Name
                 (map (\<lambda>(n, c). \<lparr>FileInfo.Name = n, IsDir = is_dir c\<rparr>) (AList.clearjunk es))))"

text \<open>
  A subprocess: \<open>exec.Command(command, args...)\<close> with \<open>cmd.Dir = dir\<close>, then \<open>cmd.Run()\<close>.
  What the program does is not part of the repository, so it is a parameter: from the
  directory, the command, its arguments and the world to the error of \<open>Run\<close> and the world
  the program leaves.  \<open>Run\<close> waits for the program to exit; a program is taken to exit.
\<close>

type_synonym runner = "string \<Rightarrow> string \<Rightarrow> string list \<Rightarrow> world \<Rightarrow> error option \<times> world"

section \<open>The wiki\<close>

record Wiki =
  Path :: string

record Page =
  Path :: string
  URI :: string
  Raw :: string
  Body :: string

record PageInfo =
  URI :: string
  Name :: string
  IsDir :: bool

text \<open>The zero value \<open>Page{}\<close>.\<close>

definition Page_zero :: Page where
  "Page_zero = \<lparr>Page.Path = [], URI = [], Raw = [], Body = []\<rparr>"

subsection \<open>Git commands and various utility\<close>

text \<open>
  \<open>Local\<close> joins the path to the wiki's directory and accepts the result when it starts
  with the directory's path and does not start with the path of its \<open>.git\<close>.  It returns
  Go's pair: the sanitized path and \<open>nil\<close>, or \<open>""\<close> and the error.
\<close>

definition Local :: "Wiki \<Rightarrow> string \<Rightarrow> string \<times> error option" where
  "Local w path =
     (let p = filepath_Clean (filepath_Join [Wiki.Path w, path]) in
      if strings_HasPrefix p (Wiki.Path w)
         \<and> \<not> strings_HasPrefix p (filepath_Join [Wiki.Path w, ''.git''])
      then (p, None)
      else ([], Some (errorString ''path outside of repo'')))"

definition ExecIn :: "runner \<Rightarrow> Wiki \<Rightarrow> string \<Rightarrow> string list \<Rightarrow> world \<Rightarrow> error option \<times> world" where
  "ExecIn run w command args s = run (Wiki.Path w) command args s"

definition Initialize :: "runner \<Rightarrow> Wiki \<Rightarrow> world \<Rightarrow> error option \<times> world" where
  "Initialize run w s = ExecIn run w ''git'' [''init''] s"

text \<open>\<open>Commit\<close> runs both commands, drops the error of each and returns \<open>nil\<close>.\<close>

definition Commit :: "runner \<Rightarrow> Wiki \<Rightarrow> string \<Rightarrow> string \<Rightarrow> world \<Rightarrow> error option \<times> world" where
  "Commit run w path message s =
     (let s1 = snd (ExecIn run w ''git'' [''add'', ''--all'', path] s);
          s2 = snd (ExecIn run w ''git'' [''commit'', ''-m'', message] s1)
      in (None, s2))"

subsection \<open>Mutating operations\<close>

text \<open>
  In \<open>Create\<close> the error of \<open>MkdirAll\<close> is assigned to \<open>err\<close> and the next statement
  assigns \<open>err\<close> again: only the world that \<open>MkdirAll\<close> leaves goes on.
\<close>

definition Create :: "runner \<Rightarrow> Wiki \<Rightarrow> string \<Rightarrow> world \<Rightarrow> error option \<times> world" where
  "Create run w path s =
     (case Local w path of
        (p, Some err) \<Rightarrow> (Some err, s)
      | (p, None) \<Rightarrow>
          (let s1 = snd (os_MkdirAll (filepath_Dir p) s) in
           case ioutil_WriteFile p (''# '' @ path) s1 of
             (Some err, s2) \<Rightarrow> (Some err, s2)
           | (None, s2) \<Rightarrow> Commit run w p (''Created '' @ path) s2))"

definition Edit :: "runner \<Rightarrow> Wiki \<Rightarrow> string \<Rightarrow> string \<Rightarrow> world \<Rightarrow> error option \<times> world" where
  "Edit run w path contents s =
     (case Local w path of
        (p, Some err) \<Rightarrow> (Some err, s)
      | (p, None) \<Rightarrow>
          (case ioutil_WriteFile p contents s of
             (Some err, s1) \<Rightarrow> (Some err, s1)
           | (None, s1) \<Rightarrow> Commit run w p (''Edit to '' @ path) s1))"


subsection \<open>Reading\<close>

text \<open>
  The loop of \<open>GetDir\<close> over the indices of \<open>files\<close>; \<open>res\<close> starts empty and gets one
  \<open>PageInfo\<close> for each entry whose name does not start with a dot.
\<close>

definition GetDir_step :: "string \<Rightarrow> FileInfo list \<Rightarrow> PageInfo list \<Rightarrow> nat \<Rightarrow> PageInfo list" where
  "GetDir_step path files res ix =
     (let f = files ! ix; n = FileInfo.Name f in
      if \<not> strings_HasPrefix n ''.''
      then res @ [\<lparr>PageInfo.URI = filepath_Join [path, n], Name = n, IsDir = FileInfo.IsDir f\<rparr>]
      else res)"

definition GetDir :: "Wiki \<Rightarrow> string \<Rightarrow> world \<Rightarrow> PageInfo list \<times> error option" where
  "GetDir w path s =
     (case Local w path of
        (p, Some err) \<Rightarrow> ([], Some err)
      | (p, None) \<Rightarrow>
          (case ioutil_ReadDir p s of
             Inl err \<Rightarrow> ([], Some err)
           | Inr files \<Rightarrow> (foldl (GetDir_step path files) [] [0..<length files], None)))"

definition GetPage :: "Wiki \<Rightarrow> string \<Rightarrow> world \<Rightarrow> Page \<times> error option" where
  "GetPage w path s =
     (case Local w path of
        (p, Some err) \<Rightarrow> (Page_zero, Some err)
      | (p, None) \<Rightarrow>
          (case ioutil_ReadFile p s of
             Inl err \<Rightarrow> (Page_zero, Some err)
           | Inr body \<Rightarrow>
               (\<lparr>Page.Path = p, URI = filepath_Clean path, Raw = body, Body = []\<rparr>, None)))"

subsection \<open>Breadcrumbs\<close>

record Crumb =
  Name :: string
  URI :: string

text \<open>
  The loop runs over the indices of \<open>split[:len(split)-1]\<close>; \<open>split\<close> has at least one
  element, so the slice is in range.
\<close>

definition Breadcrumbs_step :: "string list \<Rightarrow> Crumb list \<Rightarrow> nat \<Rightarrow> Crumb list" where
  "Breadcrumbs_step split res ix =
     (if split ! ix \<noteq> []
      then res @ [\<lparr>Crumb.Name = split ! ix, URI = strings_Join (take (ix + 1) split) ''/''\<rparr>]
      else res)"

definition Breadcrumbs :: "string \<Rightarrow> Crumb list" where
  "Breadcrumbs path =
     (let split = strings_Split path CHR ''/'' in
      foldl (Breadcrumbs_step split) [\<lparr>Crumb.Name = ''home'', URI = ''/''\<rparr>]
        [0..<length split - 1])"

definition CrumbsOf :: "Page \<Rightarrow> Crumb list" where
  "CrumbsOf pg = Breadcrumbs (Page.URI pg)"

section \<open>Notions of the specification\<close>

text \<open>The cleaned join of the wiki's directory and a request path, as \<open>Local\<close> forms it.\<close>

abbreviation cleaned_join :: "Wiki \<Rightarrow> string \<Rightarrow> string" where
  "cleaned_join w path \<equiv> filepath_Clean (filepath_Join [Wiki.Path w, path])"

text \<open>
  Containment by names, the test that \<open>Local\<close> does not make: \<open>p\<close> is the directory
  \<open>dir\<close> or lies below it when both are absolute or both relative, the names of the
  cleaned \<open>dir\<close> are the first names of the cleaned \<open>p\<close>, and no \<open>..\<close> follows them.
\<close>

definition path_names :: "string \<Rightarrow> string list" where
  "path_names p =
     filter (\<lambda>e. e \<noteq> [] \<and> e \<noteq> ''.'') (strings_Split (filepath_Clean p) Separator)"

definition within_dir :: "string \<Rightarrow> string \<Rightarrow> bool" where
  "within_dir dir p \<longleftrightarrow>
     filepath_IsAbs dir = filepath_IsAbs p
     \<and> prefix (path_names dir) (path_names p)
     \<and> ''..'' \<notin> set (drop (length (path_names dir)) (path_names p))"

section \<open>An example installation\<close>

text \<open>
  A wiki in \<open>/srv/wiki\<close> with two pages at the top, a directory with one page, a hidden
  file and its \<open>.git\<close>; beside it a directory \<open>/srv/wiki-private\<close> that is no part of it.
\<close>

definition wiki0 :: Wiki where
  "wiki0 = \<lparr>Wiki.Path = ''/srv/wiki''\<rparr>"

definition world0 :: world where
  "world0 =
     \<lparr>fs_root =
        Dir [(''srv'',
          Dir [(''wiki'',
                 Dir [(''.git'', Dir [(''HEAD'', File ''ref: refs/heads/master'')]),
                      (''home.md'', File ''# Welcome''),
                      (''notes'', Dir [(''todo.md'', File ''- write'')]),
                      (''about'', File ''About this wiki''),
                      (''.draft'', File ''wip'')]),
               (''wiki-private'', Dir [(''secret'', File ''s3cret'')])])],
      fs_cwd = [''srv'']\<rparr>"


text \<open>A machine where \<open>git\<close> cannot be run: every subprocess fails and changes nothing.\<close>

definition git_fails :: runner where
  "git_fails dir command args s = (Some ExitError, s)"

text \<open>
  A stand-in for a working \<open>git\<close>: each run writes its command line to the file \<open>index\<close>
  in the \<open>.git\<close> of the directory it runs in, and fails when there is no such directory.
\<close>

definition git_writes_index :: runner where
  "git_writes_index dir command args s =
     ioutil_WriteFile (filepath_Join [dir, ''.git'', ''index'']) (concat (command # args)) s"

section \<open>Facts about the file system\<close>

lemma lookup_write_at:
  "write_at cs data n = Inr n' \<Longrightarrow> lookup n' cs = Inr (File data)"
proof (induction cs data n arbitrary: n' rule: write_at.induct)
  case (4 c cs data es)
  show ?case
  proof (cases "map_of es c")
    case None
    with "4.prems" show ?thesis
      by (auto simp: map_add_def split: if_splits)
  next
    case (Some m)
    with "4.prems" obtain m' where m': "write_at cs data m = Inr m'"
      and n': "n' = Dir (AList.update c m' es)"
      by (auto split: sum.splits)
    from "4.IH" [OF Some m'] show ?thesis
      by (simp add: n' update_conv')
  qed
qed auto





lemma ReadFile_after_WriteFile:
  assumes "ioutil_WriteFile name data s = (None, s')"
  shows "ioutil_ReadFile name s' = Inr data"
proof -
  from assms obtain r where r: "write_at (abs_names (fs_cwd s) name) data (fs_root s) = Inr r"
    and s': "s' = s\<lparr>fs_root := r\<rparr>"
    by (auto simp: ioutil_WriteFile_def split: sum.splits)
  from lookup_write_at [OF r] show ?thesis
    by (simp add: ioutil_ReadFile_def resolve_def s')
qed






lemma ReadFile_after_Commit:
  assumes "\<And>command args t.
    ioutil_ReadFile p (snd (run (Wiki.Path w) command args t)) = ioutil_ReadFile p t"
  shows "ioutil_ReadFile p (snd (Commit run w path message s)) = ioutil_ReadFile p s"
  by (simp add: Commit_def ExecIn_def Let_def assms)

lemma Clean_not_empty: "filepath_Clean path \<noteq> []"
  by (simp add: filepath_Clean_def Let_def)

lemma Local_ok:
  "snd (Local w path) = None \<Longrightarrow> Local w path = (cleaned_join w path, None)"
  by (simp add: Local_def Let_def split: if_splits)

lemma fst_Commit: "fst (Commit run w path message s) = None"
  by (simp add: Commit_def Let_def)

lemma Local_cases:
  obtains (ok) "Local w path = (cleaned_join w path, None)"
  | (outside) "Local w path = ([], Some (errorString ''path outside of repo''))"
  by (cases "strings_HasPrefix (cleaned_join w path) (Wiki.Path w)
      \<and> \<not> strings_HasPrefix (cleaned_join w path) (filepath_Join [Wiki.Path w, ''.git''])")
    (simp_all add: Local_def Let_def)

lemma lookup_write_at_other:
  "write_at qs data n = Inr n' \<Longrightarrow> \<not> prefix qs ps \<Longrightarrow> \<not> prefix ps qs \<Longrightarrow>
     lookup n' ps = lookup n ps"
proof (induction qs data n arbitrary: n' ps rule: write_at.induct)
  case (4 c cs data es)
  from "4.prems"(3) obtain c' cs' where ps: "ps = c' # cs'"
    by (cases ps) auto
  show ?case
  proof (cases "map_of es c")
    case None
    with "4.prems"(1) have cs: "cs = []" and n': "n' = Dir (es @ [(c, File data)])"
      by (auto split: if_splits)
    from "4.prems"(2) cs ps have "c' \<noteq> c"
      by auto
    then show ?thesis
      by (simp add: ps n' map_add_def split: option.splits)
  next
    case (Some m)
    with "4.prems"(1) obtain m' where m': "write_at cs data m = Inr m'"
      and n': "n' = Dir (AList.update c m' es)"
      by (auto split: sum.splits)
    show ?thesis
    proof (cases "c' = c")
      case True
      with "4.prems"(2,3) ps have "\<not> prefix cs cs'" "\<not> prefix cs' cs"
        by auto
      from "4.IH" [OF Some m' this] show ?thesis
        by (simp add: ps n' True Some update_conv')
    next
      case False
      then show ?thesis
        by (simp add: ps n' update_conv')
    qed
  qed
qed auto

lemma ReadFile_after_WriteFile_other:
  assumes "\<not> prefix (abs_names (fs_cwd s) name) (abs_names (fs_cwd s) other)"
    and "\<not> prefix (abs_names (fs_cwd s) other) (abs_names (fs_cwd s) name)"
  shows "ioutil_ReadFile other (snd (ioutil_WriteFile name data s)) = ioutil_ReadFile other s"
proof (cases "write_at (abs_names (fs_cwd s) name) data (fs_root s)")
  case (Inl e)
  then show ?thesis
    by (simp add: ioutil_WriteFile_def)
next
  case (Inr r)
  from lookup_write_at_other [OF Inr assms] Inr show ?thesis
    by (simp add: ioutil_WriteFile_def ioutil_ReadFile_def resolve_def)
qed

lemma foldl_append_filter:
  "foldl (\<lambda>res ix. if P ix then res @ [f ix] else res) acc ixs = acc @ map f (filter P ixs)"
  by (induction ixs arbitrary: acc) simp_all

lemma insort_key_map:
  "insort_key k (f x) (map f xs) = map f (insort_key (k \<circ> f) x xs)"
  by (induction xs) simp_all

lemma sort_key_map:
  "sort_key k (map f xs) = map f (sort_key (k \<circ> f) xs)"
  by (induction xs) (simp_all add: insort_key_map comp_def)

lemma GetDir_loop:
  "foldl (GetDir_step path files) [] [0..<length files] =
     map (\<lambda>f. \<lparr>PageInfo.URI = filepath_Join [path, FileInfo.Name f], Name = FileInfo.Name f,
                IsDir = FileInfo.IsDir f\<rparr>)
       (filter (\<lambda>f. \<not> strings_HasPrefix (FileInfo.Name f) ''.'') files)"
proof -
  have step: "GetDir_step path files =
      (\<lambda>res ix. if \<not> strings_HasPrefix (FileInfo.Name (files ! ix)) ''.''
        then res @ [\<lparr>PageInfo.URI = filepath_Join [path, FileInfo.Name (files ! ix)],
                      Name = FileInfo.Name (files ! ix), IsDir = FileInfo.IsDir (files ! ix)\<rparr>]
        else res)"
    by (intro ext) (simp add: GetDir_step_def Let_def)
  have "foldl (GetDir_step path files) [] [0..<length files] =
      map (\<lambda>ix. \<lparr>PageInfo.URI = filepath_Join [path, FileInfo.Name (files ! ix)],
                  Name = FileInfo.Name (files ! ix), IsDir = FileInfo.IsDir (files ! ix)\<rparr>)
        (filter (\<lambda>ix. \<not> strings_HasPrefix (FileInfo.Name (files ! ix)) ''.'') [0..<length files])"
    unfolding step by (simp add: foldl_append_filter)
  also have "\<dots> =
      map (\<lambda>f. \<lparr>PageInfo.URI = filepath_Join [path, FileInfo.Name f], Name = FileInfo.Name f,
                IsDir = FileInfo.IsDir f\<rparr>)
        (filter (\<lambda>f. \<not> strings_HasPrefix (FileInfo.Name f) ''.'') (map ((!) files) [0..<length files]))"
    by (simp add: filter_map comp_def)
  finally show ?thesis
    by (simp add: map_nth)
qed

section \<open>The path sanitizer\<close>

text \<open>
  Claim C1.  \<open>Local\<close> returns the cleaned join of the wiki's directory and the request
  path, with no error, when the join lies in the wiki and not in its \<open>.git\<close>, and the
  empty string with the error \<open>path outside of repo\<close> otherwise; in particular every path
  whose cleaned join leaves the wiki's directory through \<open>../\<close> is rejected.  The code
  does not do so: the request \<open>../wiki-private/secret\<close> leaves \<open>/srv/wiki\<close> for
  \<open>/srv/wiki-private/secret\<close>, which is not within \<open>/srv/wiki\<close>, and \<open>Local\<close> returns it
  with no error, because the test compares the strings and asks for no separator after
  the directory's path.
\<close>

theorem Local_accepts_escape:
  "\<not> within_dir (Wiki.Path wiki0) (cleaned_join wiki0 ''../wiki-private/secret'')
   \<and> Local wiki0 ''../wiki-private/secret'' = (''/srv/wiki-private/secret'', None)"
  by code_simp

text \<open>
  Claim C2.  There is a request path for which \<open>Local\<close> returns no error although the
  path it returns is not inside the wiki's directory: the directory beside it whose name
  starts with the name of the wiki's directory.  The test is one of string prefixes.
\<close>

theorem Local_accepts_sibling:
  "\<exists>path. Local wiki0 path = (''/srv/wiki-private'', None)
      \<and> strings_HasPrefix ''/srv/wiki-private'' (Wiki.Path wiki0)
      \<and> \<not> within_dir (Wiki.Path wiki0) ''/srv/wiki-private''"
  by (rule exI [of _ "''../wiki-private''"]) code_simp

text \<open>
  Claim C10.  \<open>Local\<close> rejects too much at the boundary of the metadata: for the request
  \<open>.gitignore\<close>, a file at the top of the wiki whose name only starts with \<open>.git\<close>, the
  cleaned join begins with the string \<open>/srv/wiki/.git\<close> and \<open>Local\<close> returns the error
  \<open>path outside of repo\<close>, although the file is within the wiki's directory and not
  within its \<open>.git\<close> directory.
\<close>

theorem Local_rejects_gitignore:
  "\<exists>path. cleaned_join wiki0 path = ''/srv/wiki/.gitignore''
      \<and> strings_HasPrefix (cleaned_join wiki0 path) (filepath_Join [Wiki.Path wiki0, ''.git''])
      \<and> Local wiki0 path = ([], Some (errorString ''path outside of repo''))
      \<and> within_dir (Wiki.Path wiki0) (cleaned_join wiki0 path)
      \<and> \<not> within_dir (filepath_Join [Wiki.Path wiki0, ''.git'']) (cleaned_join wiki0 path)"
  by (rule exI [of _ "''.gitignore''"]) code_simp

section \<open>Commit\<close>

text \<open>
  Claim C6.  For every path and message, and whatever the two \<open>git\<close> subprocesses do or
  return, \<open>Commit\<close> returns \<open>nil\<close>: no error reaches the caller.  The world it leaves is
  the one left by \<open>git add --all path\<close> and then \<open>git commit -m message\<close>, both run in the
  wiki's directory.
\<close>

theorem Commit_returns_nil:
  "fst (Commit run w path message s) = None
   \<and> snd (Commit run w path message s) =
       snd (run (Wiki.Path w) ''git'' [''commit'', ''-m'', message]
              (snd (run (Wiki.Path w) ''git'' [''add'', ''--all'', path] s)))"
  by (simp add: Commit_def ExecIn_def Let_def)

section \<open>Pages\<close>

text \<open>
  Claim C4.  For every path and every byte sequence, when \<open>Edit\<close> has returned no error,
  \<open>GetPage\<close> on the same path returns a page whose \<open>Raw\<close> field is exactly the bytes
  written (and no error).  The \<open>git\<close> subprocesses that \<open>Edit\<close> starts run between the
  two; they are taken to leave the page unchanged: what can be read at its path is the
  same before and after a subprocess run in the wiki's directory.
\<close>

theorem Edit_then_GetPage:
  assumes frame: "\<And>command args t.
      ioutil_ReadFile (cleaned_join w path) (snd (run (Wiki.Path w) command args t)) =
      ioutil_ReadFile (cleaned_join w path) t"
    and ok: "fst (Edit run w path contents s) = None"
  shows "GetPage w path (snd (Edit run w path contents s)) =
    (\<lparr>Page.Path = cleaned_join w path, URI = filepath_Clean path, Raw = contents, Body = []\<rparr>,
     None)"
proof (cases w path rule: Local_cases)
  case outside
  with ok show ?thesis
    by (simp add: Edit_def)
next
  case local: ok
  obtain err s1 where wr: "ioutil_WriteFile (cleaned_join w path) contents s = (err, s1)"
    by (cases "ioutil_WriteFile (cleaned_join w path) contents s")
  with ok local have err: "err = None"
    by (cases err) (simp_all add: Edit_def)
  with wr local have ed: "Edit run w path contents s =
      Commit run w (cleaned_join w path) (''Edit to '' @ path) s1"
    by (simp add: Edit_def)
  have "ioutil_ReadFile (cleaned_join w path) (snd (Edit run w path contents s)) =
      ioutil_ReadFile (cleaned_join w path) s1"
    unfolding ed using frame by (rule ReadFile_after_Commit)
  also have "\<dots> = Inr contents"
    using wr unfolding err by (rule ReadFile_after_WriteFile)
  finally show ?thesis
    using local by (simp add: GetPage_def)
qed

text \<open>
  The theorem on the example, with the stand-in \<open>git\<close> that writes below \<open>.git\<close>: the edit
  succeeds, the second subprocess has left its command line in the index, and the page
  read back holds the new bytes.
\<close>

theorem Edit_then_GetPage_witness:
  "fst (Edit git_writes_index wiki0 ''home.md'' ''# Home, edited'' world0) = None
   \<and> ioutil_ReadFile ''/srv/wiki/.git/index''
        (snd (Edit git_writes_index wiki0 ''home.md'' ''# Home, edited'' world0)) =
      Inr ''gitcommit-mEdit to home.md''
   \<and> GetPage wiki0 ''home.md''
        (snd (Edit git_writes_index wiki0 ''home.md'' ''# Home, edited'' world0)) =
      (\<lparr>Page.Path = ''/srv/wiki/home.md'', URI = ''home.md'', Raw = ''# Home, edited'',
         Body = []\<rparr>, None)"
proof -
  have p: "cleaned_join wiki0 ''home.md'' = ''/srv/wiki/home.md''"
    and q: "filepath_Join [Wiki.Path wiki0, ''.git'', ''index''] = ''/srv/wiki/.git/index''"
    and u: "filepath_Clean ''home.md'' = ''home.md''"
    by code_simp+
  have names: "abs_names cwd ''/srv/wiki/home.md'' = [''srv'', ''wiki'', ''home.md'']"
    "abs_names cwd ''/srv/wiki/.git/index'' = [''srv'', ''wiki'', ''.git'', ''index'']" for cwd
    by (simp_all add: abs_names_def filepath_IsAbs_def strings_HasPrefix_def Separator_def
        strings_Split_def)
  have frame: "ioutil_ReadFile (cleaned_join wiki0 ''home.md'')
        (snd (git_writes_index (Wiki.Path wiki0) command args t)) =
      ioutil_ReadFile (cleaned_join wiki0 ''home.md'') t" for command args t
    unfolding git_writes_index_def p q
    by (rule ReadFile_after_WriteFile_other) (simp_all add: names)
  have ok: "fst (Edit git_writes_index wiki0 ''home.md'' ''# Home, edited'' world0) = None"
    by code_simp
  have index: "ioutil_ReadFile ''/srv/wiki/.git/index''
        (snd (Edit git_writes_index wiki0 ''home.md'' ''# Home, edited'' world0)) =
      Inr ''gitcommit-mEdit to home.md''"
    by code_simp
  from Edit_then_GetPage [of wiki0 "''home.md''" git_writes_index "''# Home, edited''" world0,
      OF frame ok]
  show ?thesis
    unfolding p u using ok index by simp
qed

text \<open>
  Claim C3, as amended.  For every path, when \<open>Create\<close> has returned no error, the file at
  that path holds exactly the placeholder \<open>"# " + path\<close>, whether or not a file was there
  before: \<open>Create\<close> writes the placeholder without looking for an existing file.  (The
  \<open>git\<close> subprocesses are taken to leave the page unchanged, as for C4.)
\<close>

theorem Create_overwrites:
  assumes frame: "\<And>command args t.
      ioutil_ReadFile (cleaned_join w path) (snd (run (Wiki.Path w) command args t)) =
      ioutil_ReadFile (cleaned_join w path) t"
    and ok: "fst (Create run w path s) = None"
  shows "GetPage w path (snd (Create run w path s)) =
    (\<lparr>Page.Path = cleaned_join w path, URI = filepath_Clean path, Raw = ''# '' @ path,
       Body = []\<rparr>, None)"
proof (cases w path rule: Local_cases)
  case outside
  with ok show ?thesis
    by (simp add: Create_def)
next
  case local: ok
  define s1 where "s1 = snd (os_MkdirAll (filepath_Dir (cleaned_join w path)) s)"
  obtain err s2 where wr: "ioutil_WriteFile (cleaned_join w path) (''# '' @ path) s1 = (err, s2)"
    by (cases "ioutil_WriteFile (cleaned_join w path) (''# '' @ path) s1")
  with ok local have err: "err = None"
    by (cases err) (simp_all add: Create_def Let_def s1_def)
  with wr local have cr: "Create run w path s =
      Commit run w (cleaned_join w path) (''Created '' @ path) s2"
    by (simp add: Create_def Let_def s1_def)
  have "ioutil_ReadFile (cleaned_join w path) (snd (Create run w path s)) =
      ioutil_ReadFile (cleaned_join w path) s2"
    unfolding cr using frame by (rule ReadFile_after_Commit)
  also have "\<dots> = Inr (''# '' @ path)"
    using wr unfolding err by (rule ReadFile_after_WriteFile)
  finally show ?thesis
    using local by (simp add: GetPage_def)
qed

text \<open>
  The theorem on the example: \<open>about\<close> holds a text before \<open>Create\<close> and the placeholder
  after it.
\<close>

theorem Create_overwrites_witness:
  "ioutil_ReadFile ''/srv/wiki/about'' world0 = Inr ''About this wiki''
   \<and> fst (Create git_fails wiki0 ''about'' world0) = None
   \<and> GetPage wiki0 ''about'' (snd (Create git_fails wiki0 ''about'' world0)) =
      (\<lparr>Page.Path = ''/srv/wiki/about'', URI = ''about'', Raw = ''# about'', Body = []\<rparr>, None)"
proof -
  have frame: "\<And>command args t.
      ioutil_ReadFile (cleaned_join wiki0 ''about'')
        (snd (git_fails (Wiki.Path wiki0) command args t)) =
      ioutil_ReadFile (cleaned_join wiki0 ''about'') t"
    by (simp add: git_fails_def)
  have ok: "fst (Create git_fails wiki0 ''about'' world0) = None"
    by code_simp
  have before: "ioutil_ReadFile ''/srv/wiki/about'' world0 = Inr ''About this wiki''"
    by code_simp
  have p: "cleaned_join wiki0 ''about'' = ''/srv/wiki/about''"
    and u: "filepath_Clean ''about'' = ''about''"
    by code_simp+
  from Create_overwrites [of wiki0 "''about''" git_fails world0, OF frame ok]
  show ?thesis
    unfolding p u using ok before by simp
qed

text \<open>
  Claim C3 as first stated says that \<open>Create\<close> on a path where a file exists leaves the
  contents of the file unchanged.  In the example \<open>home.md\<close> is a valid path, the file
  holds \<open># Welcome\<close>, \<open>Create\<close> returns no error, and the file then holds \<open># home.md\<close>.
\<close>

theorem Create_changes_existing_file:
  "Local wiki0 ''home.md'' = (''/srv/wiki/home.md'', None)
   \<and> ioutil_ReadFile ''/srv/wiki/home.md'' world0 = Inr ''# Welcome''
   \<and> fst (Create git_fails wiki0 ''home.md'' world0) = None
   \<and> ioutil_ReadFile ''/srv/wiki/home.md'' (snd (Create git_fails wiki0 ''home.md'' world0)) =
      Inr ''# home.md''"
  by code_simp

text \<open>
  Claim C9.  For every path that \<open>Local\<close> accepts, the error that \<open>Create\<close> returns is the
  error of the file write, made in the world that \<open>MkdirAll\<close> has left, or \<open>nil\<close> when the
  write succeeds; the error of \<open>MkdirAll\<close> is never the one returned.
\<close>

theorem Create_drops_MkdirAll_error:
  assumes "snd (Local w path) = None"
  shows "fst (Create run w path s) =
      fst (ioutil_WriteFile (cleaned_join w path) (''# '' @ path)
             (snd (os_MkdirAll (filepath_Dir (cleaned_join w path)) s)))
    \<and> (\<forall>e. fst (os_MkdirAll (filepath_Dir (cleaned_join w path)) s) = Some e \<longrightarrow>
          fst (Create run w path s) \<noteq> Some e)"
proof -
  define s1 where "s1 = snd (os_MkdirAll (filepath_Dir (cleaned_join w path)) s)"
  from assms have local: "Local w path = (cleaned_join w path, None)"
    by (rule Local_ok)
  obtain err s2 where wr: "ioutil_WriteFile (cleaned_join w path) (''# '' @ path) s1 = (err, s2)"
    by (cases "ioutil_WriteFile (cleaned_join w path) (''# '' @ path) s1")
  have cr: "fst (Create run w path s) = err"
    using local wr by (cases err) (simp_all add: Create_def Let_def s1_def [symmetric] fst_Commit)
  have op: "err = None \<or> (\<exists>e. err = Some (PathError ''open'' (cleaned_join w path) e))"
    using wr by (auto simp: ioutil_WriteFile_def split: sum.splits)
  have mk: "fst (os_MkdirAll d s) = Some e \<Longrightarrow> \<exists>e'. e = PathError ''mkdir'' d e'" for d e
    by (auto simp: os_MkdirAll_def split: sum.splits)
  show ?thesis
  proof (intro conjI allI impI)
    show "fst (Create run w path s) =
      fst (ioutil_WriteFile (cleaned_join w path) (''# '' @ path)
             (snd (os_MkdirAll (filepath_Dir (cleaned_join w path)) s)))"
      using cr wr by (simp add: s1_def)
  next
    fix e
    assume "fst (os_MkdirAll (filepath_Dir (cleaned_join w path)) s) = Some e"
    from mk [OF this] obtain e' where "e = PathError ''mkdir'' (filepath_Dir (cleaned_join w path)) e'" ..
    with op cr show "fst (Create run w path s) \<noteq> Some e"
      by auto
  qed
qed

text \<open>
  The theorem on the example: \<open>about\<close> is a regular file, so for \<open>about/us\<close> the parent
  directory cannot be made; \<open>Create\<close> returns the error of the write, which fails too.
\<close>

theorem Create_drops_MkdirAll_error_witness:
  "snd (Local wiki0 ''about/us'') = None
   \<and> fst (os_MkdirAll (filepath_Dir (cleaned_join wiki0 ''about/us'')) world0) =
       Some (PathError ''mkdir'' ''/srv/wiki/about'' ENOTDIR)
   \<and> fst (Create git_fails wiki0 ''about/us'' world0) =
       Some (PathError ''open'' ''/srv/wiki/about/us'' ENOTDIR)"
proof -
  have valid: "snd (Local wiki0 ''about/us'') = None"
    by code_simp
  have mk: "fst (os_MkdirAll (filepath_Dir (cleaned_join wiki0 ''about/us'')) world0) =
       Some (PathError ''mkdir'' ''/srv/wiki/about'' ENOTDIR)"
    by code_simp
  have wr: "fst (ioutil_WriteFile (cleaned_join wiki0 ''about/us'') (''# '' @ ''about/us'')
             (snd (os_MkdirAll (filepath_Dir (cleaned_join wiki0 ''about/us'')) world0))) =
       Some (PathError ''open'' ''/srv/wiki/about/us'' ENOTDIR)"
    by code_simp
  from Create_drops_MkdirAll_error [OF valid, of git_fails world0]
  have "fst (Create git_fails wiki0 ''about/us'' world0) =
       Some (PathError ''open'' ''/srv/wiki/about/us'' ENOTDIR)"
    unfolding wr by simp
  with valid mk show ?thesis
    by simp
qed




section \<open>Directories\<close>

text \<open>
  Claim C7.  When \<open>Local\<close> accepts the path and a directory is at the sanitized path,
  \<open>GetDir\<close> returns no error and one \<open>PageInfo\<close> for each entry of the directory whose name
  does not begin with a dot, in the order of the names: its name, the join of the request
  path and the name as URI, and \<open>IsDir\<close> telling whether the entry is a directory.  Entries
  whose name begins with a dot are left out.
\<close>

theorem GetDir_lists_visible_children:
  assumes "snd (Local w path) = None"
    and "resolve s (cleaned_join w path) = Inr (Dir es)"
  shows "GetDir w path s =
    (map (\<lambda>(n, c). \<lparr>PageInfo.URI = filepath_Join [path, n], Name = n, IsDir = is_dir c\<rparr>)
       (filter (\<lambda>(n, c). \<not> strings_HasPrefix n ''.'') (sort_key fst (AList.clearjunk es))),
     None)"
proof -
  define info where "info = (\<lambda>(n, c). \<lparr>FileInfo.Name = n, IsDir = is_dir c\<rparr>)"
  have name: "FileInfo.Name \<circ> info = fst"
    by (auto simp: info_def)
  have "ioutil_ReadDir (cleaned_join w path) s =
      Inr (sort_key FileInfo.Name (map info (AList.clearjunk es)))"
    using assms(2) by (simp add: ioutil_ReadDir_def info_def)
  also have "sort_key FileInfo.Name (map info (AList.clearjunk es)) =
      map info (sort_key fst (AList.clearjunk es))"
    by (simp add: sort_key_map name)
  finally have "GetDir w path s =
      (foldl (GetDir_step path (map info (sort_key fst (AList.clearjunk es)))) []
         [0..<length (map info (sort_key fst (AList.clearjunk es)))], None)"
    using Local_ok [OF assms(1)] by (simp add: GetDir_def)
  then show ?thesis
    unfolding GetDir_loop by (simp add: filter_map comp_def info_def case_prod_unfold)
qed

text \<open>
  The theorem on the top directory of the example, which holds \<open>.git\<close> and \<open>.draft\<close>
  besides two pages and a directory.
\<close>

theorem GetDir_lists_visible_children_witness:
  "snd (Local wiki0 []) = None
   \<and> GetDir wiki0 [] world0 =
     ([\<lparr>PageInfo.URI = ''about'', Name = ''about'', IsDir = False\<rparr>,
       \<lparr>PageInfo.URI = ''home.md'', Name = ''home.md'', IsDir = False\<rparr>,
       \<lparr>PageInfo.URI = ''notes'', Name = ''notes'', IsDir = True\<rparr>], None)"
proof -
  define es where "es =
     [(''.git'', Dir [(''HEAD'', File ''ref: refs/heads/master'')]),
      (''home.md'', File ''# Welcome''),
      (''notes'', Dir [(''todo.md'', File ''- write'')]),
      (''about'', File ''About this wiki''),
      (''.draft'', File ''wip'')]"
  have valid: "snd (Local wiki0 []) = None"
    by code_simp
  have dir: "resolve world0 (cleaned_join wiki0 []) = Inr (Dir es)"
    unfolding es_def by code_simp
  have list: "map (\<lambda>(n, c). \<lparr>PageInfo.URI = filepath_Join [[], n], Name = n, IsDir = is_dir c\<rparr>)
       (filter (\<lambda>(n, c). \<not> strings_HasPrefix n ''.'') (sort_key fst (AList.clearjunk es))) =
     [\<lparr>PageInfo.URI = ''about'', Name = ''about'', IsDir = False\<rparr>,
       \<lparr>PageInfo.URI = ''home.md'', Name = ''home.md'', IsDir = False\<rparr>,
       \<lparr>PageInfo.URI = ''notes'', Name = ''notes'', IsDir = True\<rparr>]"
    unfolding es_def by code_simp
  from GetDir_lists_visible_children [OF valid dir]
  have "GetDir wiki0 [] world0 =
     ([\<lparr>PageInfo.URI = ''about'', Name = ''about'', IsDir = False\<rparr>,
       \<lparr>PageInfo.URI = ''home.md'', Name = ''home.md'', IsDir = False\<rparr>,
       \<lparr>PageInfo.URI = ''notes'', Name = ''notes'', IsDir = True\<rparr>], None)"
    unfolding list .
  with valid show ?thesis
    by simp
qed

section \<open>Breadcrumbs\<close>

text \<open>
  Claim C8.  \<open>Breadcrumbs("/a/b/c")\<close> is the list of \<open>home\<close> with \<open>/\<close>, \<open>a\<close> with \<open>/a\<close>
  and \<open>b\<close> with \<open>/a/b\<close>.  For every path the result is the home crumb followed by one
  crumb for each non-empty piece of the path but the last piece, named by the piece and
  linking to the pieces up to it, joined by \<open>/\<close>.
\<close>

theorem Breadcrumbs_abc:
  "Breadcrumbs ''/a/b/c'' =
     [\<lparr>Crumb.Name = ''home'', URI = ''/''\<rparr>, \<lparr>Crumb.Name = ''a'', URI = ''/a''\<rparr>,
      \<lparr>Crumb.Name = ''b'', URI = ''/a/b''\<rparr>]
   \<and> (\<forall>path. Breadcrumbs path =
         \<lparr>Crumb.Name = ''home'', URI = ''/''\<rparr> #
         map (\<lambda>ix. \<lparr>Crumb.Name = strings_Split path CHR ''/'' ! ix,
                    URI = strings_Join (take (ix + 1) (strings_Split path CHR ''/'')) ''/''\<rparr>)
           (filter (\<lambda>ix. strings_Split path CHR ''/'' ! ix \<noteq> [])
              [0..<length (strings_Split path CHR ''/'') - 1]))"
proof (intro conjI allI)
  show "Breadcrumbs ''/a/b/c'' =
     [\<lparr>Crumb.Name = ''home'', URI = ''/''\<rparr>, \<lparr>Crumb.Name = ''a'', URI = ''/a''\<rparr>,
      \<lparr>Crumb.Name = ''b'', URI = ''/a/b''\<rparr>]"
    by code_simp
next
  fix path
  define split where "split = strings_Split path CHR ''/''"
  have step: "Breadcrumbs_step split =
      (\<lambda>res ix. if split ! ix \<noteq> [] then res @ [\<lparr>Crumb.Name = split ! ix,
          URI = strings_Join (take (ix + 1) split) ''/''\<rparr>] else res)"
    by (intro ext) (simp add: Breadcrumbs_step_def)
  have "Breadcrumbs path =
      foldl (Breadcrumbs_step split) [\<lparr>Crumb.Name = ''home'', URI = ''/''\<rparr>] [0..<length split - 1]"
    by (simp add: Breadcrumbs_def Let_def split_def)
  also have "\<dots> = [\<lparr>Crumb.Name = ''home'', URI = ''/''\<rparr>] @
      map (\<lambda>ix. \<lparr>Crumb.Name = split ! ix, URI = strings_Join (take (ix + 1) split) ''/''\<rparr>)
        (filter (\<lambda>ix. split ! ix \<noteq> []) [0..<length split - 1])"
    unfolding step by (rule foldl_append_filter)
  finally show "Breadcrumbs path =
         \<lparr>Crumb.Name = ''home'', URI = ''/''\<rparr> #
         map (\<lambda>ix. \<lparr>Crumb.Name = strings_Split path CHR ''/'' ! ix,
                    URI = strings_Join (take (ix + 1) (strings_Split path CHR ''/'')) ''/''\<rparr>)
           (filter (\<lambda>ix. strings_Split path CHR ''/'' ! ix \<noteq> [])
              [0..<length (strings_Split path CHR ''/'') - 1])"
    by (simp add: split_def)
qed

end
